theory Spec2Isabelle
  imports Main "HOL-Library.Sublist" "HOL-Library.Multiset" "HOL-Library.Product_Lexorder"
begin

section \<open>Task and TaskManager\<close>

text \<open>
  Every module of the repository starts with the same two classes. \<open>Task\<close> is an object
  with the three string attributes \<open>title\<close>, \<open>description\<close> and \<open>status\<close>;
  \<open>TaskManager\<close> owns the list \<open>self.tasks\<close>. Python strings are modelled as
  \<open>string\<close>, a \<open>char\<close> being the code point of a character below 256; text with
  larger code points is outside the model. The list is a HOL list in the same order
  (\<open>append\<close> adds at the end).
  The manager is the only holder of its Task objects, so the in-place updates of
  \<open>mark_complete\<close> and \<open>mark_incomplete\<close> are modelled by record update.
\<close>

record Task =
  title :: string
  description :: string
  status :: string

text \<open>\<open>Task.__init__(self, title, description, status="incomplete")\<close>\<close>

definition Task_init :: "string \<Rightarrow> string \<Rightarrow> string \<Rightarrow> Task" where
  "Task_init ttl descr st = \<lparr>title = ttl, description = descr, status = st\<rparr>"

definition mark_complete :: "Task \<Rightarrow> Task" where
  "mark_complete task = task\<lparr>status := ''complete''\<rparr>"

definition mark_incomplete :: "Task \<Rightarrow> Task" where
  "mark_incomplete task = task\<lparr>status := ''incomplete''\<rparr>"

text \<open>\<open>TaskManager.add_task\<close>: \<open>task = Task(title, description); self.tasks.append(task)\<close>\<close>

definition TaskManager_add_task :: "string \<Rightarrow> string \<Rightarrow> Task list \<Rightarrow> Task list" where
  "TaskManager_add_task ttl descr tasks = tasks @ [Task_init ttl descr ''incomplete'']"

text \<open>\<open>TaskManager.remove_task\<close>:
  \<open>self.tasks = [task for task in self.tasks if task.title != title]\<close>\<close>

definition TaskManager_remove_task :: "string \<Rightarrow> Task list \<Rightarrow> Task list" where
  "TaskManager_remove_task ttl tasks = [task \<leftarrow> tasks. title task \<noteq> ttl]"

text \<open>\<open>TaskManager.mark_task_complete\<close>:
  \<open>for task in self.tasks: if task.title == title: task.mark_complete()\<close>.
  The loop has no \<open>break\<close>: it visits every element of the list.\<close>

fun TaskManager_mark_task_complete :: "string \<Rightarrow> Task list \<Rightarrow> Task list" where
  "TaskManager_mark_task_complete ttl [] = []"
| "TaskManager_mark_task_complete ttl (task # rest) =
     (if title task = ttl then mark_complete task else task)
       # TaskManager_mark_task_complete ttl rest"

fun TaskManager_mark_task_incomplete :: "string \<Rightarrow> Task list \<Rightarrow> Task list" where
  "TaskManager_mark_task_incomplete ttl [] = []"
| "TaskManager_mark_task_incomplete ttl (task # rest) =
     (if title task = ttl then mark_incomplete task else task)
       # TaskManager_mark_task_incomplete ttl rest"

section \<open>TaskManagerWithHistory (History\_Undo.py)\<close>

text \<open>
  A snapshot is \<open>[task.__dict__.copy() for task in self.tasks]\<close>: a new list of new
  dictionaries, one per task, holding the attribute values (immutable strings). No
  snapshot shares an object with \<open>self.tasks\<close>, so snapshots are modelled as values of
  their own type. \<open>Task(**d)\<close> builds a new Task from such a dictionary.
\<close>

record task_dict =
  d_title :: string
  d_description :: string
  d_status :: string

definition dict_copy :: "Task \<Rightarrow> task_dict" where
  "dict_copy task = \<lparr>d_title = title task, d_description = description task, d_status = status task\<rparr>"

definition Task_kwargs :: "task_dict \<Rightarrow> Task" where
  "Task_kwargs d = Task_init (d_title d) (d_description d) (d_status d)"

definition snapshot :: "Task list \<Rightarrow> task_dict list" where
  "snapshot tasks = map dict_copy tasks"

record TaskManagerWithHistory =
  tasks :: "Task list"
  history :: "task_dict list list"
  redo_stack :: "task_dict list list"

text \<open>\<open>__init__\<close>: empty task list, empty stacks.\<close>

definition TaskManagerWithHistory_init :: TaskManagerWithHistory where
  "TaskManagerWithHistory_init = \<lparr>tasks = [], history = [], redo_stack = []\<rparr>"

text \<open>\<open>save_state\<close>: append a snapshot to \<open>self.history\<close>, then \<open>self.redo_stack.clear()\<close>.\<close>

definition save_state :: "TaskManagerWithHistory \<Rightarrow> TaskManagerWithHistory" where
  "save_state self =
     (let self1 = self\<lparr>history := history self @ [snapshot (tasks self)]\<rparr>
      in self1\<lparr>redo_stack := []\<rparr>)"

text \<open>
  \<open>undo\<close> and \<open>redo\<close> return nothing; what they print is the first component of the
  result. \<open>list.pop()\<close> removes and returns the last element; both calls are guarded by
  the emptiness test, so the pop never raises.
\<close>

definition undo :: "TaskManagerWithHistory \<Rightarrow> string \<times> TaskManagerWithHistory" where
  "undo self =
     (if history self = [] then (''No actions to undo.'', self)
      else
        let self1 = self\<lparr>redo_stack := redo_stack self @ [snapshot (tasks self)]\<rparr>;
            previous_state = last (history self1);
            self2 = self1\<lparr>history := butlast (history self1)\<rparr>;
            self3 = self2\<lparr>tasks := map Task_kwargs previous_state\<rparr>
        in (''Undo successful.'', self3))"

definition redo :: "TaskManagerWithHistory \<Rightarrow> string \<times> TaskManagerWithHistory" where
  "redo self =
     (if redo_stack self = [] then (''No actions to redo.'', self)
      else
        let self1 = self\<lparr>history := history self @ [snapshot (tasks self)]\<rparr>;
            next_state = last (redo_stack self1);
            self2 = self1\<lparr>redo_stack := butlast (redo_stack self1)\<rparr>;
            self3 = self2\<lparr>tasks := map Task_kwargs next_state\<rparr>
        in (''Redo successful.'', self3))"

text \<open>The overriding methods: \<open>self.save_state()\<close>, then the method of \<open>TaskManager\<close>.\<close>

definition add_task :: "string \<Rightarrow> string \<Rightarrow> TaskManagerWithHistory \<Rightarrow> TaskManagerWithHistory" where
  "add_task ttl descr self =
     (let self1 = save_state self
      in self1\<lparr>tasks := TaskManager_add_task ttl descr (tasks self1)\<rparr>)"

definition remove_task :: "string \<Rightarrow> TaskManagerWithHistory \<Rightarrow> TaskManagerWithHistory" where
  "remove_task ttl self =
     (let self1 = save_state self
      in self1\<lparr>tasks := TaskManager_remove_task ttl (tasks self1)\<rparr>)"

definition mark_task_complete :: "string \<Rightarrow> TaskManagerWithHistory \<Rightarrow> TaskManagerWithHistory" where
  "mark_task_complete ttl self =
     (let self1 = save_state self
      in self1\<lparr>tasks := TaskManager_mark_task_complete ttl (tasks self1)\<rparr>)"

definition mark_task_incomplete :: "string \<Rightarrow> TaskManagerWithHistory \<Rightarrow> TaskManagerWithHistory" where
  "mark_task_incomplete ttl self =
     (let self1 = save_state self
      in self1\<lparr>tasks := TaskManager_mark_task_incomplete ttl (tasks self1)\<rparr>)"

section \<open>TaskManagerWithValidation (error\_handling\_and\_validation.py)\<close>

text \<open>
  The methods of \<open>TaskManagerWithValidation\<close> refer to three module-level names:
  \<open>logging\<close>, \<open>InvalidInputError\<close> and \<open>TaskNotFoundError\<close>. Python looks a global name
  up when the statement runs and raises \<open>NameError\<close> when it is unbound. The model
  takes the list of bound global names as a parameter; \<open>module_globals\<close> is what the
  module binds when it is imported: the \<open>import logging\<close> line and both exception
  classes are commented out in the file (lines 10 to 17 and 51 to 58).
\<close>

datatype exn = NameError string | InvalidInputError string | TaskNotFoundError string

type_synonym globals = "string list"

definition module_globals :: globals where
  "module_globals =
     [''json'', ''os'', ''datetime'', ''Task'', ''TaskManager'', ''TaskManagerWithValidation'']"

definition name_lookup :: "globals \<Rightarrow> string \<Rightarrow> exn option" where
  "name_lookup g n = (if n \<in> set g then None else Some (NameError n))"

text \<open>
  \<open>str.strip()\<close> removes leading and trailing whitespace. The whitespace characters
  of Python below 256 are tab, line feed, vertical tab, form feed, carriage return, the
  separators \<open>0x1C\<close> to \<open>0x1F\<close>, the space, next line (\<open>0x85\<close>) and the no-break
  space (\<open>0xA0\<close>).
\<close>

definition isspace :: "char \<Rightarrow> bool" where
  "isspace c = (c \<in> set [CHR 0x09, CHR 0x0A, CHR 0x0B, CHR 0x0C, CHR 0x0D,
                          CHR 0x1C, CHR 0x1D, CHR 0x1E, CHR 0x1F, CHR 0x20,
                          CHR 0x85, CHR 0xA0])"

definition strip :: "string \<Rightarrow> string" where
  "strip s = rev (dropWhile isspace (rev (dropWhile isspace s)))"

definition not_found_message :: "string \<Rightarrow> string" where
  "not_found_message ttl = ''Task with title '' @ [CHR 0x27] @ ttl @ [CHR 0x27] @ '' not found.''"

text \<open>
  A call returns the exception it raised, if any, and the task list it leaves behind:
  an exception does not undo an update made before it.

  \<open>add_task\<close>: \<open>if not title.strip() or not description.strip():\<close>
  \<open>logging.error(...); raise InvalidInputError(...)\<close>, then \<open>super().add_task(...)\<close> and
  \<open>logging.info(...)\<close>.
\<close>

definition TaskManagerWithValidation_add_task ::
  "globals \<Rightarrow> string \<Rightarrow> string \<Rightarrow> Task list \<Rightarrow> exn option \<times> Task list" where
  "TaskManagerWithValidation_add_task g ttl descr self_tasks =
     (if strip ttl = [] \<or> strip descr = [] then
        (case name_lookup g ''logging'' of
           Some e \<Rightarrow> (Some e, self_tasks)
         | None \<Rightarrow>
            (case name_lookup g ''InvalidInputError'' of
               Some e \<Rightarrow> (Some e, self_tasks)
             | None \<Rightarrow>
                (Some (InvalidInputError ''Task title and description cannot be empty.''), self_tasks)))
      else
        (let self_tasks1 = TaskManager_add_task ttl descr self_tasks
         in case name_lookup g ''logging'' of
              Some e \<Rightarrow> (Some e, self_tasks1)
            | None \<Rightarrow> (None, self_tasks1)))"

text \<open>
  \<open>remove_task\<close>, \<open>mark_task_complete\<close>, \<open>mark_task_incomplete\<close>:
  \<open>task_titles = [task.title for task in self.tasks]\<close>,
  \<open>if title not in task_titles: logging.error(...); raise TaskNotFoundError(...)\<close>,
  then the method of the base class and \<open>logging.info(...)\<close>. The three methods differ
  in the base method they call and in the text they log.
\<close>

definition validated ::
  "globals \<Rightarrow> (string \<Rightarrow> Task list \<Rightarrow> Task list) \<Rightarrow> string \<Rightarrow> Task list \<Rightarrow> exn option \<times> Task list" where
  "validated g base_method ttl self_tasks =
     (let task_titles = map title self_tasks
      in if ttl \<notin> set task_titles then
           (case name_lookup g ''logging'' of
              Some e \<Rightarrow> (Some e, self_tasks)
            | None \<Rightarrow>
               (case name_lookup g ''TaskNotFoundError'' of
                  Some e \<Rightarrow> (Some e, self_tasks)
                | None \<Rightarrow> (Some (TaskNotFoundError (not_found_message ttl)), self_tasks)))
         else
           (let self_tasks1 = base_method ttl self_tasks
            in case name_lookup g ''logging'' of
                 Some e \<Rightarrow> (Some e, self_tasks1)
               | None \<Rightarrow> (None, self_tasks1)))"

definition TaskManagerWithValidation_remove_task ::
  "globals \<Rightarrow> string \<Rightarrow> Task list \<Rightarrow> exn option \<times> Task list" where
  "TaskManagerWithValidation_remove_task g = validated g TaskManager_remove_task"

definition TaskManagerWithValidation_mark_task_complete ::
  "globals \<Rightarrow> string \<Rightarrow> Task list \<Rightarrow> exn option \<times> Task list" where
  "TaskManagerWithValidation_mark_task_complete g = validated g TaskManager_mark_task_complete"

definition TaskManagerWithValidation_mark_task_incomplete ::
  "globals \<Rightarrow> string \<Rightarrow> Task list \<Rightarrow> exn option \<times> Task list" where
  "TaskManagerWithValidation_mark_task_incomplete g = validated g TaskManager_mark_task_incomplete"

section \<open>TaskManagerWithDueDatesAndSorting (DueDatesAndSorting.py)\<close>

text \<open>
  A naive \<open>datetime\<close> is the tuple (year, month, day, hour, minute, second,
  microsecond); Python compares two of them field by field in this order, which is the
  lexicographic order of the tuple. \<open>datetime.max\<close> is the last microsecond of the year
  9999.
\<close>

type_synonym datetime = "nat \<times> nat \<times> nat \<times> nat \<times> nat \<times> nat \<times> nat"

definition datetime_max :: datetime where
  "datetime_max = (9999, 12, 31, 23, 59, 59, 999999)"

text \<open>
  \<open>TaskWithDueDateAndPriority\<close> extends \<open>Task\<close> by \<open>due_date\<close> (a datetime or \<open>None\<close>)
  and \<open>priority\<close>. \<open>TaskManagerWithDueDatesAndSorting.add_task\<close> only ever appends such
  tasks.
\<close>

record TaskWithDueDateAndPriority = Task +
  due_date :: "datetime option"
  priority :: string

text \<open>
  The constructor sets \<open>due_date\<close> to \<open>datetime.strptime(due_date, "%Y-%m-%d")\<close> when a
  string is given and to \<open>None\<close> otherwise. The library parser returns midnight of a
  calendar day between the years 1 and 9999 (or raises): \<open>strptime_date\<close> holds of
  every datetime it can return, and \<open>constructed\<close> of every task the constructor can
  build.
\<close>

fun strptime_date :: "datetime \<Rightarrow> bool" where
  "strptime_date (year, month, day, hour, minute, second, microsecond) =
     (1 \<le> year \<and> year \<le> 9999 \<and> 1 \<le> month \<and> month \<le> 12 \<and> 1 \<le> day \<and> day \<le> 31 \<and>
      hour = 0 \<and> minute = 0 \<and> second = 0 \<and> microsecond = 0)"

definition constructed :: "TaskWithDueDateAndPriority \<Rightarrow> bool" where
  "constructed task = (case due_date task of None \<Rightarrow> True | Some d \<Rightarrow> strptime_date d)"

text \<open>
  \<open>sort_tasks_by_due_date\<close>:
  \<open>self.tasks.sort(key=lambda task: task.due_date or datetime.max)\<close>.
  A datetime object is always true, so the key is the due date when there is one and
  \<open>datetime.max\<close> otherwise. \<open>list.sort\<close> is the library's stable sort, ascending in the
  key; \<open>sort_key\<close> is HOL's stable sort by a key.
\<close>

definition due_date_key :: "TaskWithDueDateAndPriority \<Rightarrow> datetime" where
  "due_date_key task = (case due_date task of Some d \<Rightarrow> d | None \<Rightarrow> datetime_max)"

definition sort_tasks_by_due_date ::
  "TaskWithDueDateAndPriority list \<Rightarrow> TaskWithDueDateAndPriority list" where
  "sort_tasks_by_due_date self_tasks = sort_key due_date_key self_tasks"

text \<open>
  The constructor \<open>TaskWithDueDateAndPriority(title, description, status, due_date,
  priority)\<close>, with the result of parsing the date string (or \<open>None\<close>) as its argument.
\<close>

definition TaskWithDueDateAndPriority_init ::
  "string \<Rightarrow> string \<Rightarrow> string \<Rightarrow> datetime option \<Rightarrow> string \<Rightarrow> TaskWithDueDateAndPriority" where
  "TaskWithDueDateAndPriority_init ttl descr st parsed_due_date prio =
     \<lparr>title = ttl, description = descr, status = st, due_date = parsed_due_date, priority = prio\<rparr>"

section \<open>AdvancedTaskManager (advance-querying.py)\<close>


















section \<open>Properties of the base operations\<close>

lemma remove_absent: "ttl \<notin> title ` set ts \<Longrightarrow> TaskManager_remove_task ttl ts = ts"
  by (induction ts) (auto simp: TaskManager_remove_task_def)

lemma mark_task_complete_map:
  "TaskManager_mark_task_complete ttl ts =
     map (\<lambda>task. if title task = ttl then mark_complete task else task) ts"
  by (induction ts) simp_all

lemma mark_task_incomplete_map:
  "TaskManager_mark_task_incomplete ttl ts =
     map (\<lambda>task. if title task = ttl then mark_incomplete task else task) ts"
  by (induction ts) simp_all

lemma complete_absent: "ttl \<notin> title ` set ts \<Longrightarrow> TaskManager_mark_task_complete ttl ts = ts"
  by (induction ts) auto

lemma incomplete_absent: "ttl \<notin> title ` set ts \<Longrightarrow> TaskManager_mark_task_incomplete ttl ts = ts"
  by (induction ts) auto

section \<open>Properties of the history manager\<close>

lemma Task_kwargs_dict_copy: "Task_kwargs (dict_copy task) = task"
  by (simp add: Task_kwargs_def dict_copy_def Task_init_def)

lemma restore_snapshot: "map Task_kwargs (snapshot ts) = ts"
  by (simp add: snapshot_def Task_kwargs_dict_copy cong: map_cong)

text \<open>
  C1. Starting from an empty manager, \<open>add("A","d1")\<close>, \<open>add("B","d2")\<close>, \<open>remove("A")\<close>
  leave the titles \<open>[B]\<close>; one \<open>undo\<close> gives \<open>[A, B]\<close>, a second \<open>undo\<close> gives \<open>[A]\<close>,
  and two \<open>redo\<close> calls give \<open>[B]\<close> again.
\<close>

theorem C1_scenario:
  "(let s3 = remove_task ''A'' (add_task ''B'' ''d2'' (add_task ''A'' ''d1'' TaskManagerWithHistory_init));
        s4 = snd (undo s3);
        s5 = snd (undo s4);
        s7 = snd (redo (snd (redo s5)))
    in map title (tasks s3) = [''B''] \<and>
       map title (tasks s4) = [''A'', ''B''] \<and>
       map title (tasks s5) = [''A''] \<and>
       map title (tasks s7) = [''B''])"
  by (simp add: Let_def TaskManagerWithHistory_init_def add_task_def remove_task_def
      save_state_def undo_def redo_def snapshot_def dict_copy_def Task_kwargs_def Task_init_def
      TaskManager_add_task_def TaskManager_remove_task_def)

text \<open>
  C2. Each mutating operation of \<open>TaskManagerWithHistory\<close> pushes a copy of the task list
  as it was before the call onto the undo stack (\<open>history\<close>), empties the redo stack, and
  only then applies the change of the base class to the task list. The pushed snapshot
  rebuilds exactly the earlier task list.
\<close>

theorem C2_mutation_records_state:
  "history (add_task ttl descr s) = history s @ [snapshot (tasks s)] \<and>
   redo_stack (add_task ttl descr s) = [] \<and>
   tasks (add_task ttl descr s) = TaskManager_add_task ttl descr (tasks s) \<and>
   history (remove_task ttl s) = history s @ [snapshot (tasks s)] \<and>
   redo_stack (remove_task ttl s) = [] \<and>
   tasks (remove_task ttl s) = TaskManager_remove_task ttl (tasks s) \<and>
   history (mark_task_complete ttl s) = history s @ [snapshot (tasks s)] \<and>
   redo_stack (mark_task_complete ttl s) = [] \<and>
   tasks (mark_task_complete ttl s) = TaskManager_mark_task_complete ttl (tasks s) \<and>
   history (mark_task_incomplete ttl s) = history s @ [snapshot (tasks s)] \<and>
   redo_stack (mark_task_incomplete ttl s) = [] \<and>
   tasks (mark_task_incomplete ttl s) = TaskManager_mark_task_incomplete ttl (tasks s) \<and>
   map Task_kwargs (snapshot (tasks s)) = tasks s"
  by (simp add: add_task_def remove_task_def mark_task_complete_def mark_task_incomplete_def
      save_state_def Let_def restore_snapshot)

text \<open>
  C3. \<open>undo\<close> on an empty undo stack prints that there is nothing to undo and returns the
  state as it was. Otherwise it pushes a snapshot of the current task list onto the redo
  stack, pops the top of the undo stack and makes it the task list. \<open>redo\<close> is the mirror
  image: nothing changes on an empty redo stack; otherwise the current task list is
  pushed onto the undo stack and the popped top of the redo stack becomes the task list.
\<close>

theorem C3_undo_redo:
  "(history s = [] \<longrightarrow> undo s = (''No actions to undo.'', s)) \<and>
   (history s = hs @ [prev] \<longrightarrow>
      undo s = (''Undo successful.'',
                \<lparr>tasks = map Task_kwargs prev, history = hs,
                 redo_stack = redo_stack s @ [snapshot (tasks s)]\<rparr>)) \<and>
   (redo_stack s = [] \<longrightarrow> redo s = (''No actions to redo.'', s)) \<and>
   (redo_stack s = rs @ [nxt] \<longrightarrow>
      redo s = (''Redo successful.'',
                \<lparr>tasks = map Task_kwargs nxt, history = history s @ [snapshot (tasks s)],
                 redo_stack = rs\<rparr>))"
  by (simp add: undo_def redo_def Let_def)

theorem C3_undo_redo_witness:
  "undo \<lparr>tasks = [Task_init ''A'' ''d1'' ''incomplete''], history = [], redo_stack = []\<rparr>
     = (''No actions to undo.'',
        \<lparr>tasks = [Task_init ''A'' ''d1'' ''incomplete''], history = [], redo_stack = []\<rparr>) \<and>
   redo \<lparr>tasks = [Task_init ''A'' ''d1'' ''incomplete''], history = [], redo_stack = []\<rparr>
     = (''No actions to redo.'',
        \<lparr>tasks = [Task_init ''A'' ''d1'' ''incomplete''], history = [], redo_stack = []\<rparr>) \<and>
   undo \<lparr>tasks = [Task_init ''A'' ''d1'' ''incomplete''],
         history = [[], snapshot [Task_init ''B'' ''d2'' ''complete'']],
         redo_stack = [[]]\<rparr>
     = (''Undo successful.'',
        \<lparr>tasks = [Task_init ''B'' ''d2'' ''complete''], history = [[]],
         redo_stack = [[], snapshot [Task_init ''A'' ''d1'' ''incomplete'']]\<rparr>) \<and>
   redo \<lparr>tasks = [Task_init ''A'' ''d1'' ''incomplete''],
         history = [[]],
         redo_stack = [[], snapshot [Task_init ''B'' ''d2'' ''complete'']]\<rparr>
     = (''Redo successful.'',
        \<lparr>tasks = [Task_init ''B'' ''d2'' ''complete''],
         history = [[], snapshot [Task_init ''A'' ''d1'' ''incomplete'']],
         redo_stack = [[]]\<rparr>)"
  using
    C3_undo_redo [of "\<lparr>tasks = [Task_init ''A'' ''d1'' ''incomplete''], history = [], redo_stack = []\<rparr>"]
    C3_undo_redo [of "\<lparr>tasks = [Task_init ''A'' ''d1'' ''incomplete''],
         history = [[], snapshot [Task_init ''B'' ''d2'' ''complete'']], redo_stack = [[]]\<rparr>"
       "[[]]" "snapshot [Task_init ''B'' ''d2'' ''complete'']"]
    C3_undo_redo [of "\<lparr>tasks = [Task_init ''A'' ''d1'' ''incomplete''],
         history = [[]], redo_stack = [[], snapshot [Task_init ''B'' ''d2'' ''complete'']]\<rparr>"
       _ _ "[[]]" "snapshot [Task_init ''B'' ''d2'' ''complete'']"]
  by (simp add: restore_snapshot)

text \<open>
  C10. A mutating call of \<open>TaskManagerWithHistory\<close> that finds no task with the given
  title (\<open>remove_task\<close>, \<open>mark_task_complete\<close>, \<open>mark_task_incomplete\<close>) leaves the task
  list as it is, yet still pushes a snapshot and empties the redo stack: a following
  \<open>redo\<close> finds nothing, and a following \<open>undo\<close> restores a task list equal to the
  current one.
\<close>

theorem C10_noop_call_is_recorded:
  assumes "ttl \<notin> title ` set (tasks s)"
  shows "tasks (remove_task ttl s) = tasks s \<and>
         history (remove_task ttl s) = history s @ [snapshot (tasks s)] \<and>
         redo_stack (remove_task ttl s) = [] \<and>
         redo (remove_task ttl s) = (''No actions to redo.'', remove_task ttl s) \<and>
         tasks (snd (undo (remove_task ttl s))) = tasks (remove_task ttl s) \<and>
         tasks (mark_task_complete ttl s) = tasks s \<and>
         history (mark_task_complete ttl s) = history s @ [snapshot (tasks s)] \<and>
         redo_stack (mark_task_complete ttl s) = [] \<and>
         redo (mark_task_complete ttl s) = (''No actions to redo.'', mark_task_complete ttl s) \<and>
         tasks (snd (undo (mark_task_complete ttl s))) = tasks (mark_task_complete ttl s) \<and>
         tasks (mark_task_incomplete ttl s) = tasks s \<and>
         history (mark_task_incomplete ttl s) = history s @ [snapshot (tasks s)] \<and>
         redo_stack (mark_task_incomplete ttl s) = [] \<and>
         redo (mark_task_incomplete ttl s) = (''No actions to redo.'', mark_task_incomplete ttl s) \<and>
         tasks (snd (undo (mark_task_incomplete ttl s))) = tasks (mark_task_incomplete ttl s)"
proof -
  have r: "tasks (remove_task ttl s) = tasks s"
    using assms by (simp add: remove_task_def save_state_def Let_def remove_absent)
  have c: "tasks (mark_task_complete ttl s) = tasks s"
    using assms by (simp add: mark_task_complete_def save_state_def Let_def complete_absent)
  have i: "tasks (mark_task_incomplete ttl s) = tasks s"
    using assms by (simp add: mark_task_incomplete_def save_state_def Let_def incomplete_absent)
  have hr: "history (remove_task ttl s) = history s @ [snapshot (tasks s)]"
    and hc: "history (mark_task_complete ttl s) = history s @ [snapshot (tasks s)]"
    and hi: "history (mark_task_incomplete ttl s) = history s @ [snapshot (tasks s)]"
    by (simp_all add: remove_task_def mark_task_complete_def mark_task_incomplete_def
        save_state_def Let_def)
  have rr: "redo_stack (remove_task ttl s) = []"
    and rc: "redo_stack (mark_task_complete ttl s) = []"
    and ri: "redo_stack (mark_task_incomplete ttl s) = []"
    by (simp_all add: remove_task_def mark_task_complete_def mark_task_incomplete_def
        save_state_def Let_def)
  have u: "tasks (snd (undo t)) = tasks s" if "history t = history s @ [snapshot (tasks s)]" for t
    using that by (simp add: undo_def Let_def restore_snapshot)
  show ?thesis
    using r c i hr hc hi rr rc ri u [OF hr] u [OF hc] u [OF hi]
    by (simp add: redo_def)
qed

theorem C10_noop_call_is_recorded_witness:
  "''Z'' \<notin> title ` set [Task_init ''A'' ''d1'' ''incomplete''] \<and>
   remove_task ''Z'' \<lparr>tasks = [Task_init ''A'' ''d1'' ''incomplete''], history = [[]],
                       redo_stack = [snapshot [Task_init ''A'' ''d1'' ''complete'']]\<rparr>
     = \<lparr>tasks = [Task_init ''A'' ''d1'' ''incomplete''],
        history = [[], snapshot [Task_init ''A'' ''d1'' ''incomplete'']],
        redo_stack = []\<rparr> \<and>
   tasks (snd (undo (mark_task_complete ''Z''
      \<lparr>tasks = [Task_init ''A'' ''d1'' ''incomplete''], history = [[]],
       redo_stack = [snapshot [Task_init ''A'' ''d1'' ''complete'']]\<rparr>)))
     = [Task_init ''A'' ''d1'' ''incomplete'']"
  using C10_noop_call_is_recorded [of "''Z''"
      "\<lparr>tasks = [Task_init ''A'' ''d1'' ''incomplete''], history = [[]],
        redo_stack = [snapshot [Task_init ''A'' ''d1'' ''complete'']]\<rparr>"]
  by (simp add: Task_init_def)

section \<open>Properties of the base TaskManager\<close>

text \<open>
  C4, as amended. \<open>mark_task_complete\<close> and \<open>mark_task_incomplete\<close> keep the length and
  the order of the task list and set the status of every task whose title equals the
  argument, the first one and all later ones alike; tasks with another title are
  unchanged, and when no task has the title the list is unchanged.
\<close>

theorem C4_status_update_all_matches:
  "length (TaskManager_mark_task_complete ttl ts) = length ts \<and>
   (\<forall>i<length ts. TaskManager_mark_task_complete ttl ts ! i =
       (if title (ts ! i) = ttl then (ts ! i)\<lparr>status := ''complete''\<rparr> else ts ! i)) \<and>
   (ttl \<notin> title ` set ts \<longrightarrow> TaskManager_mark_task_complete ttl ts = ts) \<and>
   length (TaskManager_mark_task_incomplete ttl ts) = length ts \<and>
   (\<forall>i<length ts. TaskManager_mark_task_incomplete ttl ts ! i =
       (if title (ts ! i) = ttl then (ts ! i)\<lparr>status := ''incomplete''\<rparr> else ts ! i)) \<and>
   (ttl \<notin> title ` set ts \<longrightarrow> TaskManager_mark_task_incomplete ttl ts = ts)"
proof -
  have a: "length (TaskManager_mark_task_complete ttl ts) = length ts"
    and a': "length (TaskManager_mark_task_incomplete ttl ts) = length ts"
    by (simp_all add: mark_task_complete_map mark_task_incomplete_map)
  have b: "\<forall>i<length ts. TaskManager_mark_task_complete ttl ts ! i =
       (if title (ts ! i) = ttl then (ts ! i)\<lparr>status := ''complete''\<rparr> else ts ! i)"
    by (simp add: mark_task_complete_map mark_complete_def)
  have b': "\<forall>i<length ts. TaskManager_mark_task_incomplete ttl ts ! i =
       (if title (ts ! i) = ttl then (ts ! i)\<lparr>status := ''incomplete''\<rparr> else ts ! i)"
    by (simp add: mark_task_incomplete_map mark_incomplete_def)
  have c: "ttl \<notin> title ` set ts \<longrightarrow> TaskManager_mark_task_complete ttl ts = ts"
    and c': "ttl \<notin> title ` set ts \<longrightarrow> TaskManager_mark_task_incomplete ttl ts = ts"
    by (simp_all add: complete_absent incomplete_absent)
  from a b c a' b' c' show ?thesis by (intro conjI)
qed

theorem C4_status_update_all_matches_witness:
  "(1::nat) < length [Task_init ''A'' ''d1'' ''incomplete'', Task_init ''A'' ''d2'' ''incomplete'',
                      Task_init ''B'' ''d3'' ''incomplete''] \<and>
   TaskManager_mark_task_complete ''A''
     [Task_init ''A'' ''d1'' ''incomplete'', Task_init ''A'' ''d2'' ''incomplete'',
      Task_init ''B'' ''d3'' ''incomplete''] ! 1 = Task_init ''A'' ''d2'' ''complete'' \<and>
   TaskManager_mark_task_incomplete ''B''
     [Task_init ''A'' ''d1'' ''incomplete'', Task_init ''A'' ''d2'' ''incomplete'',
      Task_init ''B'' ''d3'' ''incomplete''] ! 1 = Task_init ''A'' ''d2'' ''incomplete'' \<and>
   ''Z'' \<notin> title ` set [Task_init ''A'' ''d1'' ''incomplete''] \<and>
   TaskManager_mark_task_complete ''Z'' [Task_init ''A'' ''d1'' ''incomplete'']
     = [Task_init ''A'' ''d1'' ''incomplete''] \<and>
   TaskManager_mark_task_incomplete ''Z'' [Task_init ''A'' ''d1'' ''incomplete'']
     = [Task_init ''A'' ''d1'' ''incomplete'']"
  using
    C4_status_update_all_matches [of "''A''"
      "[Task_init ''A'' ''d1'' ''incomplete'', Task_init ''A'' ''d2'' ''incomplete'',
        Task_init ''B'' ''d3'' ''incomplete'']"]
    C4_status_update_all_matches [of "''B''"
      "[Task_init ''A'' ''d1'' ''incomplete'', Task_init ''A'' ''d2'' ''incomplete'',
        Task_init ''B'' ''d3'' ''incomplete'']"]
    C4_status_update_all_matches [of "''Z''" "[Task_init ''A'' ''d1'' ''incomplete'']"]
  by (simp add: Task_init_def mark_complete_def mark_incomplete_def)

text \<open>
  The claim as written (only the first matching task is updated, later tasks with the
  same title stay as they were) fails on a list with two tasks titled \<open>A\<close>: the second
  one is updated as well.
\<close>

theorem C4_first_match_only_counterexample:
  "TaskManager_mark_task_complete ''A''
     [Task_init ''A'' ''d1'' ''incomplete'', Task_init ''A'' ''d2'' ''incomplete'']
     = [Task_init ''A'' ''d1'' ''complete'', Task_init ''A'' ''d2'' ''complete''] \<and>
   TaskManager_mark_task_complete ''A''
     [Task_init ''A'' ''d1'' ''incomplete'', Task_init ''A'' ''d2'' ''incomplete''] ! 1
     \<noteq> Task_init ''A'' ''d2'' ''incomplete'' \<and>
   TaskManager_mark_task_incomplete ''A''
     [Task_init ''A'' ''d1'' ''complete'', Task_init ''A'' ''d2'' ''complete'']
     = [Task_init ''A'' ''d1'' ''incomplete'', Task_init ''A'' ''d2'' ''incomplete''] \<and>
   TaskManager_mark_task_incomplete ''A''
     [Task_init ''A'' ''d1'' ''complete'', Task_init ''A'' ''d2'' ''complete''] ! 1
     \<noteq> Task_init ''A'' ''d2'' ''complete''"
  by (simp add: Task_init_def mark_complete_def mark_incomplete_def)

text \<open>
  C5. \<open>remove_task\<close> of the base manager deletes every task whose title is equal to the
  argument as a string (so \<open>a\<close> does not remove \<open>A\<close>): no such task is left, the result
  is a subsequence of the list (the other tasks keep their relative order), exactly the
  tasks with another title remain, as many as there were, and when no task has the title
  the list is returned unchanged. The operation has no error result.
\<close>

theorem C5_remove_task_all_matches:
  "(\<forall>task \<in> set (TaskManager_remove_task ttl ts). title task \<noteq> ttl) \<and>
   subseq (TaskManager_remove_task ttl ts) ts \<and>
   set (TaskManager_remove_task ttl ts) = {task \<in> set ts. title task \<noteq> ttl} \<and>
   length (TaskManager_remove_task ttl ts) + length [task \<leftarrow> ts. title task = ttl] = length ts \<and>
   (ttl \<notin> title ` set ts \<longrightarrow> TaskManager_remove_task ttl ts = ts)"
proof -
  have "length [task \<leftarrow> ts. title task \<noteq> ttl] + length [task \<leftarrow> ts. title task = ttl] = length ts"
    using sum_length_filter_compl [of "\<lambda>task. title task \<noteq> ttl" ts] by simp
  then show ?thesis
    by (auto simp: TaskManager_remove_task_def remove_absent [unfolded TaskManager_remove_task_def])
qed

theorem C5_remove_task_all_matches_witness:
  "Task_init ''a'' ''d3'' ''complete'' \<in> set (TaskManager_remove_task ''A''
      [Task_init ''A'' ''d1'' ''incomplete'', Task_init ''B'' ''d2'' ''incomplete'',
       Task_init ''a'' ''d3'' ''complete'', Task_init ''A'' ''d4'' ''complete'']) \<and>
   TaskManager_remove_task ''A''
      [Task_init ''A'' ''d1'' ''incomplete'', Task_init ''B'' ''d2'' ''incomplete'',
       Task_init ''a'' ''d3'' ''complete'', Task_init ''A'' ''d4'' ''complete'']
     = [Task_init ''B'' ''d2'' ''incomplete'', Task_init ''a'' ''d3'' ''complete''] \<and>
   ''Z'' \<notin> title ` set [Task_init ''A'' ''d1'' ''incomplete'', Task_init ''B'' ''d2'' ''incomplete''] \<and>
   TaskManager_remove_task ''Z''
      [Task_init ''A'' ''d1'' ''incomplete'', Task_init ''B'' ''d2'' ''incomplete'']
     = [Task_init ''A'' ''d1'' ''incomplete'', Task_init ''B'' ''d2'' ''incomplete'']"
  using
    C5_remove_task_all_matches [of "''A''"
      "[Task_init ''A'' ''d1'' ''incomplete'', Task_init ''B'' ''d2'' ''incomplete'',
        Task_init ''a'' ''d3'' ''complete'', Task_init ''A'' ''d4'' ''complete'']"]
    C5_remove_task_all_matches [of "''Z''"
      "[Task_init ''A'' ''d1'' ''incomplete'', Task_init ''B'' ''d2'' ''incomplete'']"]
  by (simp (no_asm) add: Task_init_def TaskManager_remove_task_def)

section \<open>Properties of the validated manager\<close>

text \<open>
  With \<open>logging\<close> and the two exception classes bound, the methods would behave as their
  docstrings say: a blank title or description raises \<open>InvalidInputError\<close>, an unknown
  title raises \<open>TaskNotFoundError\<close>, both leave the list unchanged, and a valid call
  updates the list and raises nothing.
\<close>

lemma add_task_with_names_bound:
  assumes "''logging'' \<in> set g" and "''InvalidInputError'' \<in> set g"
  shows "TaskManagerWithValidation_add_task g ttl descr ts =
           (if strip ttl = [] \<or> strip descr = []
            then (Some (InvalidInputError ''Task title and description cannot be empty.''), ts)
            else (None, ts @ [Task_init ttl descr ''incomplete'']))"
  using assms
  by (simp add: TaskManagerWithValidation_add_task_def name_lookup_def TaskManager_add_task_def)

lemma validated_with_names_bound:
  assumes "''logging'' \<in> set g" and "''TaskNotFoundError'' \<in> set g"
  shows "validated g base_method ttl ts =
           (if ttl \<notin> title ` set ts
            then (Some (TaskNotFoundError (not_found_message ttl)), ts)
            else (None, base_method ttl ts))"
  using assms by (simp add: validated_def name_lookup_def)

text \<open>
  C6. The claim: on the validated manager \<open>add_task\<close> with a blank title or description
  fails with \<open>InvalidInputError\<close> and leaves the list unchanged, and appends the task
  otherwise. In the module as it is written \<open>logging\<close> is unbound, so
  \<open>add_task("", "x")\<close> raises \<open>NameError\<close> at \<open>logging.error\<close>, before the
  \<open>raise InvalidInputError\<close> is reached (the list is unchanged); \<open>add_task("A", "d1")\<close>
  appends the task and then raises \<open>NameError\<close> at \<open>logging.info\<close>.
\<close>

theorem C6_add_task_raises_NameError:
  "TaskManagerWithValidation_add_task module_globals [] ''x'' []
     = (Some (NameError ''logging''), []) \<and>
   TaskManagerWithValidation_add_task module_globals ''A'' ''d1'' []
     = (Some (NameError ''logging''), [Task_init ''A'' ''d1'' ''incomplete''])"
  by (simp add: TaskManagerWithValidation_add_task_def module_globals_def name_lookup_def
      strip_def isspace_def TaskManager_add_task_def)

text \<open>
  C7. The claim: on the validated manager \<open>remove_task\<close> and the status changes fail
  with \<open>TaskNotFoundError\<close> when no task has the title, leaving the list unchanged. In
  the module as it is written the call raises \<open>NameError\<close> at \<open>logging.error\<close> instead
  (the list is unchanged); with a title that is present the base method runs and
  \<open>NameError\<close> is raised at \<open>logging.info\<close> afterwards.
\<close>

theorem C7_not_found_raises_NameError:
  "TaskManagerWithValidation_remove_task module_globals ''X'' [Task_init ''A'' ''d1'' ''incomplete'']
     = (Some (NameError ''logging''), [Task_init ''A'' ''d1'' ''incomplete'']) \<and>
   TaskManagerWithValidation_mark_task_complete module_globals ''X'' [Task_init ''A'' ''d1'' ''incomplete'']
     = (Some (NameError ''logging''), [Task_init ''A'' ''d1'' ''incomplete'']) \<and>
   TaskManagerWithValidation_mark_task_incomplete module_globals ''X'' [Task_init ''A'' ''d1'' ''complete'']
     = (Some (NameError ''logging''), [Task_init ''A'' ''d1'' ''complete'']) \<and>
   TaskManagerWithValidation_remove_task module_globals ''A'' [Task_init ''A'' ''d1'' ''incomplete'']
     = (Some (NameError ''logging''), [])"
  by (simp add: TaskManagerWithValidation_remove_task_def
      TaskManagerWithValidation_mark_task_complete_def
      TaskManagerWithValidation_mark_task_incomplete_def validated_def
      module_globals_def name_lookup_def Task_init_def TaskManager_remove_task_def)

section \<open>Properties of sorting by due date\<close>

lemma strptime_date_before_max: "strptime_date d \<Longrightarrow> d < datetime_max"
  by (cases d rule: strptime_date.cases) (simp add: datetime_max_def)

lemma constructed_key_dated:
  "constructed task \<Longrightarrow> due_date task = Some d \<Longrightarrow> due_date_key task < datetime_max"
  by (simp add: constructed_def due_date_key_def strptime_date_before_max)

lemma key_dateless: "due_date task = None \<Longrightarrow> due_date_key task = datetime_max"
  by (simp add: due_date_key_def)

lemma constructed_dateless_iff:
  "constructed task \<Longrightarrow> due_date task = None \<longleftrightarrow> due_date_key task = datetime_max"
  using constructed_key_dated [of task] key_dateless [of task]
  by (cases "due_date task") auto

text \<open>Every task the constructor builds from a parsed date, or from no date, is \<open>constructed\<close>.\<close>

lemma constructed_init:
  "constructed (TaskWithDueDateAndPriority_init ttl descr st None prio)"
  "strptime_date d \<Longrightarrow> constructed (TaskWithDueDateAndPriority_init ttl descr st (Some d) prio)"
  by (simp_all add: constructed_def TaskWithDueDateAndPriority_init_def)

text \<open>A list sorted by a key splits into the elements below a bound and those at it.\<close>

lemma sorted_split_at_bound:
  fixes f :: "'a \<Rightarrow> 'k::linorder"
  assumes "sorted (map f xs)" and "\<forall>x\<in>set xs. f x \<le> m"
  shows "xs = [x \<leftarrow> xs. f x < m] @ [x \<leftarrow> xs. \<not> f x < m]"
  using assms
proof (induction xs)
  case Nil
  then show ?case by simp
next
  case (Cons a xs)
  show ?case
  proof (cases "f a < m")
    case True
    then show ?thesis using Cons by simp
  next
    case False
    with Cons.prems have "f a = m" by auto
    with Cons.prems have "\<forall>x\<in>set xs. \<not> f x < m" by auto
    then have "[x \<leftarrow> xs. f x < m] = []" and "[x \<leftarrow> xs. \<not> f x < m] = xs"
      by (simp_all add: filter_empty_conv filter_id_conv)
    with False show ?thesis by simp
  qed
qed

lemma filter_cong_set: "(\<And>x. x \<in> set xs \<Longrightarrow> P x = Q x) \<Longrightarrow> filter P xs = filter Q xs"
  by (rule filter_cong) simp_all

text \<open>
  C8. On a task list built by the constructor (every due date is a calendar day),
  \<open>sort_tasks_by_due_date\<close> reorders the list so that the dated tasks come first, in
  non-decreasing order of their dates, and the tasks without a due date come after all
  of them; tasks with the same key keep their relative order, in particular the tasks
  without a due date.
\<close>

theorem C8_sort_tasks_by_due_date:
  assumes "\<forall>task \<in> set ts. constructed task"
  shows "mset (sort_tasks_by_due_date ts) = mset ts \<and>
         sort_tasks_by_due_date ts =
           [task \<leftarrow> sort_tasks_by_due_date ts. due_date task \<noteq> None] @
           [task \<leftarrow> sort_tasks_by_due_date ts. due_date task = None] \<and>
         sorted (map (\<lambda>task. the (due_date task))
                   [task \<leftarrow> sort_tasks_by_due_date ts. due_date task \<noteq> None]) \<and>
         (\<forall>k. [task \<leftarrow> sort_tasks_by_due_date ts. due_date_key task = k] =
              [task \<leftarrow> ts. due_date_key task = k]) \<and>
         [task \<leftarrow> sort_tasks_by_due_date ts. due_date task = None] =
           [task \<leftarrow> ts. due_date task = None]"
proof -
  let ?rs = "sort_tasks_by_due_date ts"
  have perm: "mset ?rs = mset ts"
    by (simp add: sort_tasks_by_due_date_def)
  then have set_eq: "set ?rs = set ts"
    by (rule mset_eq_setD)
  have srt: "sorted (map due_date_key ?rs)"
    by (simp add: sort_tasks_by_due_date_def)
  have cons: "\<forall>task \<in> set ?rs. constructed task"
    using assms set_eq by simp
  have stable: "[task \<leftarrow> ?rs. due_date_key task = k] = [task \<leftarrow> ts. due_date_key task = k]" for k
    by (simp add: sort_tasks_by_due_date_def sort_key_stable)
  have le: "\<forall>task \<in> set ?rs. due_date_key task \<le> datetime_max"
  proof
    fix task assume "task \<in> set ?rs"
    with cons have "constructed task" by simp
    then show "due_date_key task \<le> datetime_max"
      using constructed_key_dated [of task] key_dateless [of task]
      by (cases "due_date task") (auto simp: less_imp_le)
  qed
  have dated: "(due_date task \<noteq> None) = (due_date_key task < datetime_max)"
    if "constructed task" for task
    using that constructed_dateless_iff [of task] constructed_key_dated [of task]
    by (cases "due_date task") auto
  have f1: "[task \<leftarrow> ?rs. due_date task \<noteq> None] = [task \<leftarrow> ?rs. due_date_key task < datetime_max]"
    using cons dated by (intro filter_cong_set) simp
  have undated: "(due_date task = None) = (\<not> due_date_key task < datetime_max)"
    if "constructed task" for task
    using that constructed_key_dated [of task] key_dateless [of task]
    by (cases "due_date task") auto
  have f2: "[task \<leftarrow> ?rs. due_date task = None] = [task \<leftarrow> ?rs. \<not> due_date_key task < datetime_max]"
    using cons undated by (intro filter_cong_set) simp
  have split: "?rs = [task \<leftarrow> ?rs. due_date task \<noteq> None] @ [task \<leftarrow> ?rs. due_date task = None]"
    unfolding f1 f2 by (rule sorted_split_at_bound [OF srt le])
  have keq: "map due_date_key [task \<leftarrow> ?rs. due_date task \<noteq> None]
      = map (\<lambda>task. the (due_date task)) [task \<leftarrow> ?rs. due_date task \<noteq> None]"
    by (rule map_cong) (auto simp: due_date_key_def)
  have "sorted (map due_date_key [task \<leftarrow> ?rs. due_date task \<noteq> None])"
    using srt by (rule sorted_filter)
  then have dates: "sorted (map (\<lambda>task. the (due_date task)) [task \<leftarrow> ?rs. due_date task \<noteq> None])"
    unfolding keq .
  have g1: "[task \<leftarrow> ?rs. due_date task = None] = [task \<leftarrow> ?rs. due_date_key task = datetime_max]"
    using cons constructed_dateless_iff by (intro filter_cong_set) simp
  have g2: "[task \<leftarrow> ts. due_date task = None] = [task \<leftarrow> ts. due_date_key task = datetime_max]"
    using assms constructed_dateless_iff by (intro filter_cong_set) simp
  have dateless: "[task \<leftarrow> ?rs. due_date task = None] = [task \<leftarrow> ts. due_date task = None]"
    unfolding g1 g2 by (rule stable)
  from perm split dates stable dateless show ?thesis
    by (intro conjI allI)
qed

theorem C8_sort_tasks_by_due_date_witness:
  "constructed (TaskWithDueDateAndPriority_init ''a'' ''d1'' ''incomplete'' (Some (2023, 10, 15, 0, 0, 0, 0)) ''high'') \<and>
   constructed (TaskWithDueDateAndPriority_init ''b'' ''d2'' ''incomplete'' None ''low'') \<and>
   constructed (TaskWithDueDateAndPriority_init ''c'' ''d3'' ''incomplete'' (Some (2023, 10, 10, 0, 0, 0, 0)) ''medium'') \<and>
   constructed (TaskWithDueDateAndPriority_init ''d'' ''d4'' ''complete'' None ''medium'') \<and>
   constructed (TaskWithDueDateAndPriority_init ''e'' ''d5'' ''complete'' (Some (2023, 10, 10, 0, 0, 0, 0)) ''low'') \<and>
   [task \<leftarrow> sort_tasks_by_due_date
      [TaskWithDueDateAndPriority_init ''a'' ''d1'' ''incomplete'' (Some (2023, 10, 15, 0, 0, 0, 0)) ''high'',
       TaskWithDueDateAndPriority_init ''b'' ''d2'' ''incomplete'' None ''low'',
       TaskWithDueDateAndPriority_init ''c'' ''d3'' ''incomplete'' (Some (2023, 10, 10, 0, 0, 0, 0)) ''medium'',
       TaskWithDueDateAndPriority_init ''d'' ''d4'' ''complete'' None ''medium'',
       TaskWithDueDateAndPriority_init ''e'' ''d5'' ''complete'' (Some (2023, 10, 10, 0, 0, 0, 0)) ''low''].
      due_date task = None]
     = [TaskWithDueDateAndPriority_init ''b'' ''d2'' ''incomplete'' None ''low'',
        TaskWithDueDateAndPriority_init ''d'' ''d4'' ''complete'' None ''medium''] \<and>
   sort_tasks_by_due_date
      [TaskWithDueDateAndPriority_init ''a'' ''d1'' ''incomplete'' (Some (2023, 10, 15, 0, 0, 0, 0)) ''high'',
       TaskWithDueDateAndPriority_init ''b'' ''d2'' ''incomplete'' None ''low'',
       TaskWithDueDateAndPriority_init ''c'' ''d3'' ''incomplete'' (Some (2023, 10, 10, 0, 0, 0, 0)) ''medium'',
       TaskWithDueDateAndPriority_init ''d'' ''d4'' ''complete'' None ''medium'',
       TaskWithDueDateAndPriority_init ''e'' ''d5'' ''complete'' (Some (2023, 10, 10, 0, 0, 0, 0)) ''low'']
     = [TaskWithDueDateAndPriority_init ''c'' ''d3'' ''incomplete'' (Some (2023, 10, 10, 0, 0, 0, 0)) ''medium'',
        TaskWithDueDateAndPriority_init ''e'' ''d5'' ''complete'' (Some (2023, 10, 10, 0, 0, 0, 0)) ''low'',
        TaskWithDueDateAndPriority_init ''a'' ''d1'' ''incomplete'' (Some (2023, 10, 15, 0, 0, 0, 0)) ''high'',
        TaskWithDueDateAndPriority_init ''b'' ''d2'' ''incomplete'' None ''low'',
        TaskWithDueDateAndPriority_init ''d'' ''d4'' ''complete'' None ''medium'']"
proof -
  let ?ts = "[TaskWithDueDateAndPriority_init ''a'' ''d1'' ''incomplete'' (Some (2023, 10, 15, 0, 0, 0, 0)) ''high'',
       TaskWithDueDateAndPriority_init ''b'' ''d2'' ''incomplete'' None ''low'',
       TaskWithDueDateAndPriority_init ''c'' ''d3'' ''incomplete'' (Some (2023, 10, 10, 0, 0, 0, 0)) ''medium'',
       TaskWithDueDateAndPriority_init ''d'' ''d4'' ''complete'' None ''medium'',
       TaskWithDueDateAndPriority_init ''e'' ''d5'' ''complete'' (Some (2023, 10, 10, 0, 0, 0, 0)) ''low'']"
  have h: "\<forall>task \<in> set ?ts. constructed task"
    by (simp add: constructed_def TaskWithDueDateAndPriority_init_def)
  have "[task \<leftarrow> sort_tasks_by_due_date ?ts. due_date task = None] = [task \<leftarrow> ?ts. due_date task = None]"
    using C8_sort_tasks_by_due_date [OF h] by (elim conjE)
  then have undated: "[task \<leftarrow> sort_tasks_by_due_date ?ts. due_date task = None]
      = [TaskWithDueDateAndPriority_init ''b'' ''d2'' ''incomplete'' None ''low'',
         TaskWithDueDateAndPriority_init ''d'' ''d4'' ''complete'' None ''medium'']"
    by (simp add: TaskWithDueDateAndPriority_init_def)
  have sorted_list: "sort_tasks_by_due_date ?ts
     = [TaskWithDueDateAndPriority_init ''c'' ''d3'' ''incomplete'' (Some (2023, 10, 10, 0, 0, 0, 0)) ''medium'',
        TaskWithDueDateAndPriority_init ''e'' ''d5'' ''complete'' (Some (2023, 10, 10, 0, 0, 0, 0)) ''low'',
        TaskWithDueDateAndPriority_init ''a'' ''d1'' ''incomplete'' (Some (2023, 10, 15, 0, 0, 0, 0)) ''high'',
        TaskWithDueDateAndPriority_init ''b'' ''d2'' ''incomplete'' None ''low'',
        TaskWithDueDateAndPriority_init ''d'' ''d4'' ''complete'' None ''medium'']"
    by (simp add: sort_tasks_by_due_date_def due_date_key_def datetime_max_def
        TaskWithDueDateAndPriority_init_def)
  from h undated sorted_list show ?thesis
    by (intro conjI) simp_all
qed

section \<open>Properties of the combined filter\<close>












end
